theory Spec2Isabelle
  imports Complex_Main
begin

section \<open>Data model of \<open>app.py\<close>\<close>

text \<open>
  Dates are day numbers: every \<open>datetime\<close> the program handles is a calendar date
  (midnight), so \<open>(a - b).days\<close> is the integer difference \<open>a - b\<close>.
  Amounts and areas are real numbers. The functions of the first part compute with them
  exactly; the functions with the suffix \<open>_fl\<close> further below are the same code with
  the rounding of every floating-point operation made explicit.
  A \<open>Person\<close> object has no \<open>__eq__\<close>/\<open>__hash__\<close>, so it is a dictionary key by object
  identity: a person is represented by the identity of the object.
\<close>

type_synonym date = int
type_synonym person = nat

text \<open>
  The exceptions of the program. \<open>PeriodError\<close> is a subclass of \<open>ValueError\<close>; the
  argument records which \<open>raise\<close> statement (which message) produced the exception.
  \<open>EmptySequence\<close> is the \<open>ValueError\<close> of \<open>min()\<close>/\<open>max()\<close> on an empty generator,
  \<open>ZeroDivisionError\<close> the one of \<open>/\<close> with a zero divisor.
\<close>

datatype period_msg = Overlap | NotAdjacent | StartsAfter | EndsBefore | Gap

datatype value_msg =
  StartNotBeforeEnd | InvalidSharingType | EmptySequence
  | NoOccupants | ZeroArea | NoOccupiedRooms

datatype error = PeriodError period_msg | ValueError value_msg | ZeroDivisionError

record Person =
  name :: string
  surname :: string
  payments :: "(real \<times> date) list"

definition add_payment :: "real \<Rightarrow> date \<Rightarrow> Person \<Rightarrow> Person" where
  "add_payment amount d p = p\<lparr>payments := payments p @ [(amount, d)]\<rparr>"

definition total_paid :: "Person \<Rightarrow> real" where
  "total_paid p = sum_list (map fst (payments p))"

record Room =
  room_name :: string
  area :: real
  occupants :: "person list"

definition add_occupant :: "person \<Rightarrow> Room \<Rightarrow> Room" where
  "add_occupant p r = r\<lparr>occupants := occupants r @ [p]\<rparr>"

record CostPeriod =
  cp_start :: date
  cp_end :: date
  cost :: real

definition CostPeriod_init :: "date \<Rightarrow> date \<Rightarrow> real \<Rightarrow> error + CostPeriod" where
  "CostPeriod_init start_date end_date c =
     (if start_date \<ge> end_date then Inl (ValueError StartNotBeforeEnd)
      else Inr \<lparr>cp_start = start_date, cp_end = end_date, cost = c\<rparr>)"

definition duration_days :: "CostPeriod \<Rightarrow> int" where
  "duration_days p = (cp_end p - cp_start p) + 1"

datatype sharing = per_person | per_area | per_room

record Utility =
  utility_name :: string
  sharing_type :: sharing
  periods :: "CostPeriod list"

definition Utility_init :: "string \<Rightarrow> string \<Rightarrow> error + Utility" where
  "Utility_init n s =
     (if s = ''per_person'' then Inr \<lparr>utility_name = n, sharing_type = per_person, periods = []\<rparr>
      else if s = ''per_area'' then Inr \<lparr>utility_name = n, sharing_type = per_area, periods = []\<rparr>
      else if s = ''per_room'' then Inr \<lparr>utility_name = n, sharing_type = per_room, periods = []\<rparr>
      else Inl (ValueError InvalidSharingType))"

record Property =
  rooms :: "Room list"
  common_area :: real
  utilities :: "Utility list"

definition Property_init :: Property where
  "Property_init = \<lparr>rooms = [], common_area = 0, utilities = []\<rparr>"

section \<open>Utility: inserting cost periods\<close>

definition overlaps :: "CostPeriod \<Rightarrow> CostPeriod \<Rightarrow> bool" where
  "overlaps new_period existing \<longleftrightarrow>
     cp_start new_period \<le> cp_end existing \<and> cp_end new_period \<ge> cp_start existing"

definition adjacent :: "CostPeriod \<Rightarrow> CostPeriod \<Rightarrow> bool" where
  "adjacent new_period p \<longleftrightarrow>
     \<bar>cp_start new_period - cp_end p\<bar> = 1 \<or> \<bar>cp_start p - cp_end new_period\<bar> = 1"

definition validate_new_period :: "Utility \<Rightarrow> CostPeriod \<Rightarrow> error + unit" where
  "validate_new_period u new_period =
     (if list_ex (overlaps new_period) (periods u) then Inl (PeriodError Overlap)
      else if \<not> list_ex (adjacent new_period) (periods u) then
        (if periods u \<noteq> [] then Inl (PeriodError NotAdjacent) else Inr ())
      else Inr ())"

definition add_cost_period :: "Utility \<Rightarrow> CostPeriod \<Rightarrow> error + Utility" where
  "add_cost_period u period =
     (case validate_new_period u period of
        Inl e \<Rightarrow> Inl e
      | Inr _ \<Rightarrow> Inr (u\<lparr>periods := sort_key cp_start (periods u @ [period])\<rparr>))"

definition total_cost :: "Utility \<Rightarrow> real" where
  "total_cost u = sum_list (map cost (periods u))"

section \<open>Dictionaries of shares\<close>

text \<open>
  A \<open>defaultdict(float)\<close> is an association list in insertion order with distinct keys.
  \<open>dict_set\<close> is \<open>d[k] = v\<close>; \<open>dict_add\<close> is \<open>d[k] += v\<close>, where a missing key is first
  created with value \<open>0.0\<close>.
\<close>

type_synonym shares = "(person \<times> real) list"

fun dict_set :: "person \<Rightarrow> real \<Rightarrow> shares \<Rightarrow> shares" where
  "dict_set k v [] = [(k, v)]"
| "dict_set k v ((k', w) # d) = (if k' = k then (k', v) # d else (k', w) # dict_set k v d)"

fun dict_add :: "person \<Rightarrow> real \<Rightarrow> shares \<Rightarrow> shares" where
  "dict_add k v [] = [(k, 0 + v)]"
| "dict_add k v ((k', w) # d) = (if k' = k then (k', w + v) # d else (k', w) # dict_add k v d)"

fun dict_get :: "shares \<Rightarrow> person \<Rightarrow> real" where
  "dict_get [] k = 0"
| "dict_get ((k', w) # d) k = (if k' = k then w else dict_get d k)"

definition sum_values :: "shares \<Rightarrow> real" where
  "sum_values d = sum_list (map snd d)"

section \<open>Property: the daily share distributor\<close>

definition get_occupants :: "Property \<Rightarrow> person list" where
  "get_occupants p = concat (map occupants (rooms p))"

definition total_area :: "Property \<Rightarrow> real" where
  "total_area p = sum_list (map area (rooms p)) + common_area p"

definition private_shares :: "real \<Rightarrow> real \<Rightarrow> Room \<Rightarrow> shares \<Rightarrow> shares" where
  "private_shares tot daily_cost room sh =
     (if occupants room \<noteq> [] then
        (let room_share = (area room / tot) * daily_cost;
             pp = room_share / real (length (occupants room))
         in fold (\<lambda>person. dict_add person pp) (occupants room) sh)
      else sh)"

definition room_shares :: "real \<Rightarrow> Room \<Rightarrow> shares \<Rightarrow> shares" where
  "room_shares per_room_cost room sh =
     (let pp = per_room_cost / real (length (occupants room))
      in fold (\<lambda>person. dict_add person pp) (occupants room) sh)"

definition calculate_daily_shares :: "Property \<Rightarrow> sharing \<Rightarrow> real \<Rightarrow> error + shares" where
  "calculate_daily_shares p st daily_cost =
     (let occ = get_occupants p;
          total_people = length occ;
          tot = total_area p
      in case st of
           per_person \<Rightarrow>
             if total_people = 0 then Inl (ValueError NoOccupants)
             else Inr (fold (\<lambda>person. dict_set person (daily_cost / real total_people)) occ [])
         | per_area \<Rightarrow>
             if tot = 0 then Inl (ValueError ZeroArea)
             else
               (let sh = fold (private_shares tot daily_cost) (rooms p) []
                in if common_area p > 0 then
                     (if total_people = 0 then Inl ZeroDivisionError
                      else Inr (fold (\<lambda>person. dict_add person
                                  (((common_area p / tot) * daily_cost) / real total_people)) occ sh))
                   else Inr sh)
         | per_room \<Rightarrow>
             (let occupied_rooms = filter (\<lambda>r. occupants r \<noteq> []) (rooms p)
              in if occupied_rooms = [] then Inl (ValueError NoOccupiedRooms)
                 else Inr (fold (room_shares (daily_cost / real (length occupied_rooms)))
                             occupied_rooms [])))"

section \<open>Property: coverage validation\<close>

fun first_gap :: "CostPeriod list \<Rightarrow> bool" where
  "first_gap (a # b # ps) =
     (if cp_start b - cp_end a \<noteq> 1 then True else first_gap (b # ps))"
| "first_gap _ = False"

definition validate_utility_coverage :: "Utility \<Rightarrow> date \<Rightarrow> date \<Rightarrow> error + unit" where
  "validate_utility_coverage u start_date end_date =
     (if periods u = [] then Inl (ValueError EmptySequence)
      else
        (let coverage_start = Min (set (map cp_start (periods u)));
             coverage_end = Max (set (map cp_end (periods u)))
         in if coverage_start > start_date then Inl (PeriodError StartsAfter)
            else if coverage_end < end_date then Inl (PeriodError EndsBefore)
            else if first_gap (sort_key cp_start (periods u)) then Inl (PeriodError Gap)
            else Inr ()))"

section \<open>Property: the allocation engine\<close>

fun for_each :: "('a \<Rightarrow> 's \<Rightarrow> error + 's) \<Rightarrow> 'a list \<Rightarrow> 's \<Rightarrow> error + 's" where
  "for_each body [] s = Inr s"
| "for_each body (x # xs) s =
     (case body x s of Inl e \<Rightarrow> Inl e | Inr s' \<Rightarrow> for_each body xs s')"

definition skipped :: "date \<Rightarrow> date \<Rightarrow> CostPeriod \<Rightarrow> bool" where
  "skipped start_date end_date period \<longleftrightarrow>
     cp_end period < start_date \<or> cp_start period > end_date"

definition days_active :: "date \<Rightarrow> date \<Rightarrow> CostPeriod \<Rightarrow> int" where
  "days_active start_date end_date period =
     (let effective_start = max (cp_start period) start_date;
          effective_end = min (cp_end period) end_date
      in (effective_end - effective_start) + 1)"

definition accumulate :: "int \<Rightarrow> shares \<Rightarrow> shares \<Rightarrow> shares" where
  "accumulate days daily sh =
     fold (\<lambda>(person, daily_share). dict_add person (daily_share * real_of_int days)) daily sh"

definition process_period ::
  "Property \<Rightarrow> sharing \<Rightarrow> date \<Rightarrow> date \<Rightarrow> CostPeriod \<Rightarrow> shares \<Rightarrow> error + shares" where
  "process_period p st start_date end_date period sh =
     (if skipped start_date end_date period then Inr sh
      else if duration_days period = 0 then Inl ZeroDivisionError
      else
        (let cost_per_day = cost period / real_of_int (duration_days period)
         in case calculate_daily_shares p st cost_per_day of
              Inl e \<Rightarrow> Inl e
            | Inr daily \<Rightarrow> Inr (accumulate (days_active start_date end_date period) daily sh)))"

definition process_utility ::
  "Property \<Rightarrow> date \<Rightarrow> date \<Rightarrow> Utility \<Rightarrow> shares \<Rightarrow> error + shares" where
  "process_utility p start_date end_date u sh =
     (case validate_utility_coverage u start_date end_date of
        Inl e \<Rightarrow> Inl e
      | Inr _ \<Rightarrow> for_each (process_period p (sharing_type u) start_date end_date) (periods u) sh)"

definition calculate_shares :: "Property \<Rightarrow> date \<Rightarrow> date \<Rightarrow> error + shares" where
  "calculate_shares p start_date end_date =
     for_each (process_utility p start_date end_date) (utilities p) []"

section \<open>The object graph as state\<close>

text \<open>
  The methods above only read \<open>self\<close>. To speak about mutation, the object graph is a
  state: the property with its rooms, utilities and cost periods, and the \<open>Person\<close>
  objects by identity. A method is a function from the state to a result (or an exception)
  and the state it leaves behind. \<open>read\<close> is an attribute read, \<open>modify\<close> an in-place
  update (\<open>append\<close>, attribute assignment).
\<close>

record World =
  house :: Property
  people :: "(person \<times> Person) list"

type_synonym 'a action = "World \<Rightarrow> (error + 'a) \<times> World"

definition return :: "'a \<Rightarrow> 'a action" where
  "return x = (\<lambda>w. (Inr x, w))"

definition raise :: "error \<Rightarrow> 'a action" where
  "raise e = (\<lambda>w. (Inl e, w))"

definition bind :: "'a action \<Rightarrow> ('a \<Rightarrow> 'b action) \<Rightarrow> 'b action" where
  "bind m f = (\<lambda>w. case m w of (Inl e, w') \<Rightarrow> (Inl e, w') | (Inr x, w') \<Rightarrow> f x w')"

definition read :: "(World \<Rightarrow> 'a) \<Rightarrow> 'a action" where
  "read f = (\<lambda>w. (Inr (f w), w))"

definition modify :: "(World \<Rightarrow> World) \<Rightarrow> unit action" where
  "modify f = (\<lambda>w. (Inr (), f w))"

definition add_room_st :: "Room \<Rightarrow> unit action" where
  "add_room_st room = modify (\<lambda>w. w\<lparr>house := (house w)\<lparr>rooms := rooms (house w) @ [room]\<rparr>\<rparr>)"

definition set_common_area_st :: "real \<Rightarrow> unit action" where
  "set_common_area_st a = modify (\<lambda>w. w\<lparr>house := (house w)\<lparr>common_area := a\<rparr>\<rparr>)"

definition add_utility_st :: "Utility \<Rightarrow> unit action" where
  "add_utility_st u =
     modify (\<lambda>w. w\<lparr>house := (house w)\<lparr>utilities := utilities (house w) @ [u]\<rparr>\<rparr>)"

fun for_each_st :: "('a \<Rightarrow> 's \<Rightarrow> 's action) \<Rightarrow> 'a list \<Rightarrow> 's \<Rightarrow> 's action" where
  "for_each_st body [] s = return s"
| "for_each_st body (x # xs) s = bind (body x s) (for_each_st body xs)"

definition get_occupants_st :: "person list action" where
  "get_occupants_st = read (\<lambda>w. concat (map occupants (rooms (house w))))"

definition calculate_daily_shares_st :: "sharing \<Rightarrow> real \<Rightarrow> shares action" where
  "calculate_daily_shares_st st daily_cost =
     bind get_occupants_st (\<lambda>occ.
     bind (read (\<lambda>w. sum_list (map area (rooms (house w))))) (\<lambda>total_private_area.
     bind (read (\<lambda>w. common_area (house w))) (\<lambda>common.
     bind (read (\<lambda>w. rooms (house w))) (\<lambda>rs.
       (let total_people = length occ;
            tot = total_private_area + common
        in case st of
             per_person \<Rightarrow>
               if total_people = 0 then raise (ValueError NoOccupants)
               else return (fold (\<lambda>person. dict_set person (daily_cost / real total_people)) occ [])
           | per_area \<Rightarrow>
               if tot = 0 then raise (ValueError ZeroArea)
               else
                 (let sh = fold (private_shares tot daily_cost) rs []
                  in if common > 0 then
                       (if total_people = 0 then raise ZeroDivisionError
                        else return (fold (\<lambda>person. dict_add person
                                      (((common / tot) * daily_cost) / real total_people)) occ sh))
                     else return sh)
           | per_room \<Rightarrow>
               (let occupied_rooms = filter (\<lambda>r. occupants r \<noteq> []) rs
                in if occupied_rooms = [] then raise (ValueError NoOccupiedRooms)
                   else return (fold (room_shares (daily_cost / real (length occupied_rooms)))
                                 occupied_rooms [])))))))"

definition validate_utility_coverage_st :: "Utility \<Rightarrow> date \<Rightarrow> date \<Rightarrow> unit action" where
  "validate_utility_coverage_st u start_date end_date =
     (if periods u = [] then raise (ValueError EmptySequence)
      else
        (let coverage_start = Min (set (map cp_start (periods u)));
             coverage_end = Max (set (map cp_end (periods u)))
         in if coverage_start > start_date then raise (PeriodError StartsAfter)
            else if coverage_end < end_date then raise (PeriodError EndsBefore)
            else if first_gap (sort_key cp_start (periods u)) then raise (PeriodError Gap)
            else return ()))"

definition process_period_st ::
  "sharing \<Rightarrow> date \<Rightarrow> date \<Rightarrow> CostPeriod \<Rightarrow> shares \<Rightarrow> shares action" where
  "process_period_st st start_date end_date period sh =
     (if skipped start_date end_date period then return sh
      else if duration_days period = 0 then raise ZeroDivisionError
      else
        bind (calculate_daily_shares_st st (cost period / real_of_int (duration_days period)))
          (\<lambda>daily. return (accumulate (days_active start_date end_date period) daily sh)))"

definition process_utility_st :: "date \<Rightarrow> date \<Rightarrow> Utility \<Rightarrow> shares \<Rightarrow> shares action" where
  "process_utility_st start_date end_date u sh =
     bind (validate_utility_coverage_st u start_date end_date) (\<lambda>_.
       for_each_st (process_period_st (sharing_type u) start_date end_date) (periods u) sh)"

definition calculate_shares_st :: "date \<Rightarrow> date \<Rightarrow> shares action" where
  "calculate_shares_st start_date end_date =
     bind (read (\<lambda>w. utilities (house w))) (\<lambda>us.
       for_each_st (process_utility_st start_date end_date) us [])"

section \<open>Floating-point arithmetic\<close>

text \<open>
  Python's \<open>float\<close> is the IEEE 754 double: 53 significant bits, round to nearest with
  ties to even, subnormal numbers below \<open>2 ^ - 1022\<close>. The result of \<open>+\<close>, \<open>*\<close> and
  \<open>/\<close> on floats is the exact result rounded by \<open>round_double\<close>; an \<open>int\<close> operand
  (a duration, a day count, the length of a list) is converted first, exactly for the
  magnitudes that occur. Results of magnitude \<open>2 ^ 1024\<close> and more, which IEEE arithmetic
  turns into infinities, are outside this description. \<open>float_sum\<close> is the built-in
  \<open>sum\<close> of a list of floats, and \<open>find_exponent\<close> searches the binary exponent of a
  number by doubling and halving.
\<close>

definition pow2 :: "int \<Rightarrow> real" where
  "pow2 e = (if e \<ge> 0 then 2 ^ nat e else 1 / 2 ^ nat (- e))"

definition round_to_even :: "real \<Rightarrow> int" where
  "round_to_even m =
     (let f = \<lfloor>m\<rfloor>; d = m - of_int f
      in if d < 1 / 2 then f else if d > 1 / 2 then f + 1 else if even f then f else f + 1)"

definition double_exponent :: "real \<Rightarrow> int" where
  "double_exponent x = max \<lfloor>log 2 \<bar>x\<bar>\<rfloor> (- 1022)"

definition round_double :: "real \<Rightarrow> real" where
  "round_double x =
     (if x = 0 then 0
      else (let ulp = pow2 (double_exponent x - 52)
            in of_int (round_to_even (x / ulp)) * ulp))"

fun find_exponent :: "nat \<Rightarrow> int \<Rightarrow> real \<Rightarrow> int" where
  "find_exponent 0 e x = e"
| "find_exponent (Suc n) e x =
     (if pow2 (e + 1) \<le> x then find_exponent n (e + 1) x
      else if x < pow2 e then find_exponent n (e - 1) x
      else e)"



section \<open>The distributor and the engine with rounding made explicit\<close>

text \<open>
  The functions of \<open>Property\<close> once more, every arithmetic operation followed by a
  rounding function \<open>rnd\<close>. With \<open>round_double\<close> for \<open>rnd\<close> this is the program as
  Python runs it on floats; with the identity it is the exact computation of the sections
  above. \<open>sum(r.area for r in self.rooms)\<close> adds from the left, starting from \<open>0\<close>.
\<close>

fun dict_add_fl :: "(real \<Rightarrow> real) \<Rightarrow> person \<Rightarrow> real \<Rightarrow> shares \<Rightarrow> shares" where
  "dict_add_fl rnd k v [] = [(k, rnd (0 + v))]"
| "dict_add_fl rnd k v ((k', w) # d) =
     (if k' = k then (k', rnd (w + v)) # d else (k', w) # dict_add_fl rnd k v d)"

definition total_area_fl :: "(real \<Rightarrow> real) \<Rightarrow> Property \<Rightarrow> real" where
  "total_area_fl rnd p =
     rnd (fold (\<lambda>a s. rnd (s + a)) (map area (rooms p)) 0 + common_area p)"

definition private_shares_fl ::
  "(real \<Rightarrow> real) \<Rightarrow> real \<Rightarrow> real \<Rightarrow> Room \<Rightarrow> shares \<Rightarrow> shares" where
  "private_shares_fl rnd tot daily_cost room sh =
     (if occupants room \<noteq> [] then
        (let room_share = rnd (rnd (area room / tot) * daily_cost);
             pp = rnd (room_share / real (length (occupants room)))
         in fold (\<lambda>person. dict_add_fl rnd person pp) (occupants room) sh)
      else sh)"

definition room_shares_fl :: "(real \<Rightarrow> real) \<Rightarrow> real \<Rightarrow> Room \<Rightarrow> shares \<Rightarrow> shares" where
  "room_shares_fl rnd per_room_cost room sh =
     (let pp = rnd (per_room_cost / real (length (occupants room)))
      in fold (\<lambda>person. dict_add_fl rnd person pp) (occupants room) sh)"

definition calculate_daily_shares_fl ::
  "(real \<Rightarrow> real) \<Rightarrow> Property \<Rightarrow> sharing \<Rightarrow> real \<Rightarrow> error + shares" where
  "calculate_daily_shares_fl rnd p st daily_cost =
     (let occ = get_occupants p;
          total_people = length occ;
          tot = total_area_fl rnd p
      in case st of
           per_person \<Rightarrow>
             if total_people = 0 then Inl (ValueError NoOccupants)
             else Inr (fold (\<lambda>person. dict_set person (rnd (daily_cost / real total_people)))
                         occ [])
         | per_area \<Rightarrow>
             if tot = 0 then Inl (ValueError ZeroArea)
             else
               (let sh = fold (private_shares_fl rnd tot daily_cost) (rooms p) []
                in if common_area p > 0 then
                     (if total_people = 0 then Inl ZeroDivisionError
                      else Inr (fold (\<lambda>person. dict_add_fl rnd person
                                  (rnd (rnd (rnd (common_area p / tot) * daily_cost)
                                          / real total_people))) occ sh))
                   else Inr sh)
         | per_room \<Rightarrow>
             (let occupied_rooms = filter (\<lambda>r. occupants r \<noteq> []) (rooms p)
              in if occupied_rooms = [] then Inl (ValueError NoOccupiedRooms)
                 else Inr (fold (room_shares_fl rnd
                                   (rnd (daily_cost / real (length occupied_rooms))))
                             occupied_rooms [])))"

definition accumulate_fl :: "(real \<Rightarrow> real) \<Rightarrow> int \<Rightarrow> shares \<Rightarrow> shares \<Rightarrow> shares" where
  "accumulate_fl rnd days daily sh =
     fold (\<lambda>(person, daily_share).
             dict_add_fl rnd person (rnd (daily_share * real_of_int days))) daily sh"

definition process_period_fl ::
  "(real \<Rightarrow> real) \<Rightarrow> Property \<Rightarrow> sharing \<Rightarrow> date \<Rightarrow> date \<Rightarrow> CostPeriod \<Rightarrow> shares
     \<Rightarrow> error + shares" where
  "process_period_fl rnd p st start_date end_date period sh =
     (if skipped start_date end_date period then Inr sh
      else if duration_days period = 0 then Inl ZeroDivisionError
      else
        (let cost_per_day = rnd (cost period / real_of_int (duration_days period))
         in case calculate_daily_shares_fl rnd p st cost_per_day of
              Inl e \<Rightarrow> Inl e
            | Inr daily \<Rightarrow>
                Inr (accumulate_fl rnd (days_active start_date end_date period) daily sh)))"

definition process_utility_fl ::
  "(real \<Rightarrow> real) \<Rightarrow> Property \<Rightarrow> date \<Rightarrow> date \<Rightarrow> Utility \<Rightarrow> shares \<Rightarrow> error + shares" where
  "process_utility_fl rnd p start_date end_date u sh =
     (case validate_utility_coverage u start_date end_date of
        Inl e \<Rightarrow> Inl e
      | Inr _ \<Rightarrow>
          for_each (process_period_fl rnd p (sharing_type u) start_date end_date) (periods u) sh)"

definition calculate_shares_fl ::
  "(real \<Rightarrow> real) \<Rightarrow> Property \<Rightarrow> date \<Rightarrow> date \<Rightarrow> error + shares" where
  "calculate_shares_fl rnd p start_date end_date =
     for_each (process_utility_fl rnd p start_date end_date) (utilities p) []"

section \<open>Quantities the specification speaks about\<close>














section \<open>The example of the main block, and variants of it\<close>

text \<open>
  The house of the \<open>__main__\<close> block: Alice (person 0) in a room of area 40, Bob
  (person 1) in a room of area 20, common area 40, electricity shared per area with the
  periods 1 January to 31 August 2024 (days 1 to 244, cost 500) and 1 September to
  31 December 2024 (days 245 to 366, cost 100). The variants leave Bob's room empty, have no
  room at all, or list Alice in both rooms.
\<close>

definition example_electricity :: Utility where
  "example_electricity =
     \<lparr>utility_name = ''Electricity'', sharing_type = per_area,
      periods = [\<lparr>cp_start = 1, cp_end = 244, cost = 500\<rparr>,
                 \<lparr>cp_start = 245, cp_end = 366, cost = 100\<rparr>]\<rparr>"

definition example_house :: Property where
  "example_house =
     \<lparr>rooms = [\<lparr>room_name = ''wohnzimmer'', area = 40, occupants = [0]\<rparr>,
               \<lparr>room_name = ''schlafzimmer'', area = 20, occupants = [1]\<rparr>],
      common_area = 40, utilities = [example_electricity]\<rparr>"


definition example_water :: Utility where
  "example_water =
     \<lparr>utility_name = ''Water'', sharing_type = per_person,
      periods = [\<lparr>cp_start = 1, cp_end = 10, cost = 300\<rparr>]\<rparr>"

definition empty_house :: Property where
  "empty_house = \<lparr>rooms = [], common_area = 0, utilities = [example_water]\<rparr>"

definition house_with_two_room_tenant :: Property where
  "house_with_two_room_tenant =
     \<lparr>rooms = [\<lparr>room_name = ''wohnzimmer'', area = 40, occupants = [0]\<rparr>,
               \<lparr>room_name = ''schlafzimmer'', area = 20, occupants = [1, 0]\<rparr>],
      common_area = 40, utilities = [example_water]\<rparr>"

definition example_world :: World where
  "example_world =
     \<lparr>house = empty_house\<lparr>utilities := [example_electricity, example_water]\<rparr>,
      people = [(0, \<lparr>name = ''Alice'', surname = ''Smith'', payments = []\<rparr>),
                (1, \<lparr>name = ''Bob'', surname = ''Jones'', payments = [(20, 3)]\<rparr>)]\<rparr>"




definition half_empty_house :: Property where
  "half_empty_house =
     \<lparr>rooms = [\<lparr>room_name = ''a'', area = 30, occupants = [0]\<rparr>,
               \<lparr>room_name = ''b'', area = 30, occupants = []\<rparr>],
      common_area = 10, utilities = []\<rparr>"

definition one_tenant_house :: Property where
  "one_tenant_house =
     \<lparr>rooms = [\<lparr>room_name = ''a'', area = 30, occupants = [0]\<rparr>],
      common_area = 10,
      utilities = [\<lparr>utility_name = ''Water'', sharing_type = per_person,
                    periods = [\<lparr>cp_start = 1, cp_end = 49, cost = 1\<rparr>]\<rparr>]\<rparr>"

section \<open>Inserting cost periods: overlap and adjacency\<close>

lemma list_ex_overlaps:
  "list_ex (overlaps n) ps \<longleftrightarrow>
     (\<exists>e\<in>set ps. cp_start n \<le> cp_end e \<and> cp_end n \<ge> cp_start e)"
  by (simp add: list_ex_iff overlaps_def)

text \<open>
  C5. \<open>add_cost_period\<close> fails with the overlap \<open>PeriodError\<close> whenever the new period
  intersects some existing period of the utility, the intersection test being the symmetric
  one on inclusive ranges: \<open>new.start \<le> existing.end\<close> and \<open>new.end \<ge> existing.start\<close>.
  An overlap of a single day (new.start = existing.end) is included.
\<close>

theorem add_cost_period_overlap:
  "\<exists>existing\<in>set (periods u).
      cp_start new_period \<le> cp_end existing \<and> cp_end new_period \<ge> cp_start existing
   \<Longrightarrow> add_cost_period u new_period = Inl (PeriodError Overlap)"
  by (simp add: add_cost_period_def validate_new_period_def list_ex_overlaps)

theorem add_cost_period_overlap_witness:
  "add_cost_period
     \<lparr>utility_name = ''Water'', sharing_type = per_person,
      periods = [\<lparr>cp_start = 1, cp_end = 10, cost = 50\<rparr>]\<rparr>
     \<lparr>cp_start = 10, cp_end = 20, cost = 70\<rparr> = Inl (PeriodError Overlap)"
  using add_cost_period_overlap
    [of "\<lparr>utility_name = ''Water'', sharing_type = per_person,
      periods = [\<lparr>cp_start = 1, cp_end = 10, cost = 50\<rparr>]\<rparr>"
      "\<lparr>cp_start = 10, cp_end = 20, cost = 70\<rparr>"]
  by simp

text \<open>
  C6. \<open>add_cost_period\<close> fails with the adjacency \<open>PeriodError\<close> if and only if the
  utility already has a period, the new period overlaps none of them, and no existing
  period \<open>p\<close> has \<open>abs(new.start - p.end) = 1\<close> or \<open>abs(p.start - new.end) = 1\<close>.
  The first period of a utility is always accepted; next to a single existing period, a
  new period two or more days away is rejected, and one exactly one day away is accepted
  (both periods having start before end, as the \<open>CostPeriod\<close> constructor ensures).
\<close>

theorem add_cost_period_adjacency:
  "(add_cost_period u new_period = Inl (PeriodError NotAdjacent) \<longleftrightarrow>
      periods u \<noteq> [] \<and>
      \<not> (\<exists>p\<in>set (periods u).
            cp_start new_period \<le> cp_end p \<and> cp_end new_period \<ge> cp_start p) \<and>
      \<not> (\<exists>p\<in>set (periods u).
            \<bar>cp_start new_period - cp_end p\<bar> = 1 \<or> \<bar>cp_start p - cp_end new_period\<bar> = 1))
   \<and> (periods u = [] \<longrightarrow>
        add_cost_period u new_period = Inr (u\<lparr>periods := [new_period]\<rparr>))
   \<and> (periods u = [existing] \<and> cp_start existing < cp_end existing \<and>
        cp_start new_period < cp_end new_period \<and>
        (cp_start new_period - cp_end existing \<ge> 2 \<or> cp_start existing - cp_end new_period \<ge> 2)
        \<longrightarrow> add_cost_period u new_period = Inl (PeriodError NotAdjacent))
   \<and> (periods u = [existing] \<and>
        (cp_start new_period - cp_end existing = 1 \<or> cp_start existing - cp_end new_period = 1)
        \<longrightarrow> add_cost_period u new_period =
              Inr (u\<lparr>periods := sort_key cp_start [existing, new_period]\<rparr>))"
  by (auto simp add: add_cost_period_def validate_new_period_def list_ex_iff overlaps_def
      adjacent_def split: sum.splits if_splits)

theorem add_cost_period_adjacency_witness:
  "add_cost_period
     \<lparr>utility_name = ''Water'', sharing_type = per_person,
      periods = [\<lparr>cp_start = 1, cp_end = 10, cost = 50\<rparr>]\<rparr>
     \<lparr>cp_start = 12, cp_end = 20, cost = 70\<rparr> = Inl (PeriodError NotAdjacent)
   \<and> add_cost_period
     \<lparr>utility_name = ''Water'', sharing_type = per_person,
      periods = [\<lparr>cp_start = 1, cp_end = 10, cost = 50\<rparr>]\<rparr>
     \<lparr>cp_start = 11, cp_end = 20, cost = 70\<rparr> =
     Inr \<lparr>utility_name = ''Water'', sharing_type = per_person,
      periods = [\<lparr>cp_start = 1, cp_end = 10, cost = 50\<rparr>,
                 \<lparr>cp_start = 11, cp_end = 20, cost = 70\<rparr>]\<rparr>
   \<and> add_cost_period
     \<lparr>utility_name = ''Water'', sharing_type = per_person, periods = []\<rparr>
     \<lparr>cp_start = 1, cp_end = 10, cost = 50\<rparr> =
     Inr \<lparr>utility_name = ''Water'', sharing_type = per_person,
      periods = [\<lparr>cp_start = 1, cp_end = 10, cost = 50\<rparr>]\<rparr>"
  using add_cost_period_adjacency
    [of "\<lparr>utility_name = ''Water'', sharing_type = per_person,
      periods = [\<lparr>cp_start = 1, cp_end = 10, cost = 50\<rparr>]\<rparr>"
      "\<lparr>cp_start = 12, cp_end = 20, cost = 70\<rparr>"
      "\<lparr>cp_start = 1, cp_end = 10, cost = 50\<rparr>"]
    add_cost_period_adjacency
    [of "\<lparr>utility_name = ''Water'', sharing_type = per_person,
      periods = [\<lparr>cp_start = 1, cp_end = 10, cost = 50\<rparr>]\<rparr>"
      "\<lparr>cp_start = 11, cp_end = 20, cost = 70\<rparr>"
      "\<lparr>cp_start = 1, cp_end = 10, cost = 50\<rparr>"]
    add_cost_period_adjacency
    [of "\<lparr>utility_name = ''Water'', sharing_type = per_person, periods = []\<rparr>"
      "\<lparr>cp_start = 1, cp_end = 10, cost = 50\<rparr>"]
  by simp

section \<open>Coverage validation\<close>

lemma first_gap_iff:
  "first_gap ps \<longleftrightarrow>
     (\<exists>i. 0 < i \<and> i < length ps \<and> cp_start (ps ! i) - cp_end (ps ! (i - 1)) \<noteq> 1)"
proof (induction ps rule: first_gap.induct)
  case (1 a b ps)
  show ?case
  proof (cases "cp_start b - cp_end a \<noteq> 1")
    case True
    then have "0 < (1::nat) \<and> 1 < length (a # b # ps) \<and>
        cp_start ((a # b # ps) ! 1) - cp_end ((a # b # ps) ! (1 - 1)) \<noteq> 1"
      by simp
    then show ?thesis using True by (metis first_gap.simps(1))
  next
    case False
    have "(\<exists>i. 0 < i \<and> i < length (a # b # ps) \<and>
             cp_start ((a # b # ps) ! i) - cp_end ((a # b # ps) ! (i - 1)) \<noteq> 1)
          \<longleftrightarrow> (\<exists>i. 0 < i \<and> i < length (b # ps) \<and>
             cp_start ((b # ps) ! i) - cp_end ((b # ps) ! (i - 1)) \<noteq> 1)" (is "?L \<longleftrightarrow> ?R")
    proof
      assume ?L
      then obtain i where i: "0 < i" "i < length (a # b # ps)"
        "cp_start ((a # b # ps) ! i) - cp_end ((a # b # ps) ! (i - 1)) \<noteq> 1" by blast
      with False have "i \<noteq> 1" by auto
      with i obtain j where j: "i = Suc j" "0 < j" by (cases i) auto
      with i show ?R by (intro exI[of _ j]) (auto simp: nth_Cons')
    next
      assume ?R
      then obtain j where j: "0 < j" "j < length (b # ps)"
        "cp_start ((b # ps) ! j) - cp_end ((b # ps) ! (j - 1)) \<noteq> 1" by blast
      then show ?L by (intro exI[of _ "Suc j"]) (auto simp: nth_Cons')
    qed
    with False 1 show ?thesis by simp
  qed
qed simp_all

lemma validate_single:
  "periods u = [cp] \<Longrightarrow> cp_start cp \<le> s \<Longrightarrow> e \<le> cp_end cp \<Longrightarrow>
   validate_utility_coverage u s e = Inr ()"
  by (simp add: validate_utility_coverage_def)

text \<open>
  C4. Coverage validation of a utility against a query window fails with a
  \<open>PeriodError\<close> (the coverage error) if and only if the earliest period start is later
  than the query start, or the latest period end is earlier than the query end, or two
  consecutive periods in start-sorted order are not exactly one day apart
  (\<open>curr.start - prev.end \<noteq> 1\<close>). In particular a window that ends one day after the last
  period's end fails. A utility without any period has no earliest start: there
  \<open>min()\<close> raises a plain \<open>ValueError\<close>, which is not a \<open>PeriodError\<close>.
\<close>

theorem validate_utility_coverage_fails_iff:
  "((\<exists>m. validate_utility_coverage u query_start query_end = Inl (PeriodError m)) \<longleftrightarrow>
      periods u \<noteq> [] \<and>
      (Min (set (map cp_start (periods u))) > query_start \<or>
       Max (set (map cp_end (periods u))) < query_end \<or>
       (\<exists>i. 0 < i \<and> i < length (periods u) \<and>
            cp_start (sort_key cp_start (periods u) ! i)
              - cp_end (sort_key cp_start (periods u) ! (i - 1)) \<noteq> 1)))
   \<and> (periods u \<noteq> [] \<and> query_end = Max (set (map cp_end (periods u))) + 1 \<longrightarrow>
        (\<exists>m. validate_utility_coverage u query_start query_end = Inl (PeriodError m)))"
  by (auto simp add: validate_utility_coverage_def Let_def first_gap_iff)

theorem validate_utility_coverage_fails_iff_witness:
  "(\<exists>m. validate_utility_coverage
     \<lparr>utility_name = ''Water'', sharing_type = per_person,
      periods = [\<lparr>cp_start = 1, cp_end = 10, cost = 50\<rparr>,
                 \<lparr>cp_start = 11, cp_end = 20, cost = 70\<rparr>]\<rparr> 1 21 = Inl (PeriodError m))
   \<and> \<not> (\<exists>m. validate_utility_coverage
     \<lparr>utility_name = ''Water'', sharing_type = per_person,
      periods = [\<lparr>cp_start = 1, cp_end = 10, cost = 50\<rparr>,
                 \<lparr>cp_start = 11, cp_end = 20, cost = 70\<rparr>]\<rparr> 1 20 = Inl (PeriodError m))"
  using validate_utility_coverage_fails_iff
    [of "\<lparr>utility_name = ''Water'', sharing_type = per_person,
      periods = [\<lparr>cp_start = 1, cp_end = 10, cost = 50\<rparr>,
                 \<lparr>cp_start = 11, cp_end = 20, cost = 70\<rparr>]\<rparr>" 1 21]
    validate_utility_coverage_fails_iff
    [of "\<lparr>utility_name = ''Water'', sharing_type = per_person,
      periods = [\<lparr>cp_start = 1, cp_end = 10, cost = 50\<rparr>,
                 \<lparr>cp_start = 11, cp_end = 20, cost = 70\<rparr>]\<rparr>" 1 20]
  by (auto simp add: less_Suc_eq)

section \<open>Per-area sharing without occupants\<close>

text \<open>
  C10. There is input at the public interface on which \<open>calculate_shares\<close> raises
  \<open>ZeroDivisionError\<close>: a property without any occupant, with positive common area and
  positive total area, whose first utility is shared per area and has one period containing
  the query window. The common-area share is divided by the number of occupants, which is
  zero; the result is neither a mapping nor one of the \<open>ValueError\<close>s of the distributor.
\<close>

theorem per_area_without_occupants_divides_by_zero:
  assumes "get_occupants p = []" and "common_area p > 0" and "total_area p > 0"
    and "utilities p = u # us" and "sharing_type u = per_area" and "periods u = [cp]"
    and "cp_start cp < cp_end cp"
    and "cp_start cp \<le> start_date" and "start_date \<le> end_date" and "end_date \<le> cp_end cp"
  shows "calculate_daily_shares p per_area daily_cost = Inl ZeroDivisionError
     \<and> calculate_shares p start_date end_date = Inl ZeroDivisionError"
proof -
  have d: "\<And>c. calculate_daily_shares p per_area c = Inl ZeroDivisionError"
    using assms(1-3) by (simp add: calculate_daily_shares_def Let_def)
  have "\<not> skipped start_date end_date cp"
    using assms(8-10) by (simp add: skipped_def)
  moreover have "duration_days cp \<noteq> 0"
    using assms(7) by (simp add: duration_days_def)
  ultimately have "process_period p per_area start_date end_date cp [] = Inl ZeroDivisionError"
    by (simp add: process_period_def d)
  then have "process_utility p start_date end_date u [] = Inl ZeroDivisionError"
    using assms(5,6,8,10) by (simp add: process_utility_def validate_single)
  then have "calculate_shares p start_date end_date = Inl ZeroDivisionError"
    using assms(4) by (simp add: calculate_shares_def)
  with d show ?thesis by simp
qed

theorem per_area_without_occupants_divides_by_zero_witness:
  "calculate_shares
     \<lparr>rooms = [\<lparr>room_name = ''wohnzimmer'', area = 40, occupants = []\<rparr>],
      common_area = 40,
      utilities = [\<lparr>utility_name = ''Electricity'', sharing_type = per_area,
                    periods = [\<lparr>cp_start = 1, cp_end = 244, cost = 500\<rparr>]\<rparr>]\<rparr> 1 100
   = Inl ZeroDivisionError"
  using per_area_without_occupants_divides_by_zero
    [of "\<lparr>rooms = [\<lparr>room_name = ''wohnzimmer'', area = 40, occupants = []\<rparr>],
      common_area = 40,
      utilities = [\<lparr>utility_name = ''Electricity'', sharing_type = per_area,
                    periods = [\<lparr>cp_start = 1, cp_end = 244, cost = 500\<rparr>]\<rparr>]\<rparr>"
      "\<lparr>utility_name = ''Electricity'', sharing_type = per_area,
                    periods = [\<lparr>cp_start = 1, cp_end = 244, cost = 500\<rparr>]\<rparr>"
      "[]" "\<lparr>cp_start = 1, cp_end = 244, cost = 500\<rparr>" 1 100]
  by (simp add: get_occupants_def total_area_def)

section \<open>Dictionaries: sums, lookups and keys\<close>

lemma sum_values_Nil [simp]: "sum_values [] = 0"
  by (simp add: sum_values_def)


lemma dict_get_dict_add:
  "dict_get (dict_add k v d) q = dict_get d q + (if q = k then v else 0)"
  by (induction d) auto

lemma keys_dict_add: "fst ` set (dict_add k v d) = insert k (fst ` set d)"
  by (induction k v d rule: dict_add.induct) auto

lemma distinct_dict_add:
  "distinct (map fst d) \<Longrightarrow> distinct (map fst (dict_add k v d))"
  by (induction k v d rule: dict_add.induct) (auto simp: keys_dict_add)


lemma dict_get_fold_add:
  "dict_get (fold (\<lambda>person. dict_add person v) ps d) q
     = dict_get d q + real (count_list ps q) * v"
  by (induction ps arbitrary: d) (simp_all add: dict_get_dict_add algebra_simps)


lemma keys_fold_add:
  "fst ` set (fold (\<lambda>person. dict_add person v) ps d) = set ps \<union> fst ` set d"
  by (induction ps arbitrary: d) (simp_all add: keys_dict_add)

subsection \<open>Per-room sharing\<close>








lemma per_room_error_iff:
  "calculate_daily_shares p per_room c = Inl (ValueError NoOccupiedRooms)
     \<longleftrightarrow> (\<forall>r\<in>set (rooms p). occupants r = [])"
  by (auto simp: calculate_daily_shares_def Let_def filter_empty_conv)


subsection \<open>Per-person sharing\<close>











lemma per_person_error_iff:
  "calculate_daily_shares p per_person c = Inl (ValueError NoOccupants)
     \<longleftrightarrow> get_occupants p = []"
  by (simp add: calculate_daily_shares_def Let_def)



subsection \<open>Scaling by the active days\<close>




lemma distinct_accumulate:
  "distinct (map fst sh) \<Longrightarrow> distinct (map fst (accumulate days daily sh))"
  unfolding accumulate_def
  by (induction daily arbitrary: sh) (auto simp: distinct_dict_add)

subsection \<open>Per-area sharing\<close>



lemma dict_get_private_shares:
  "dict_get (private_shares tot c r sh) q
     = dict_get sh q + (if occupants r \<noteq> [] then
         area r / tot * c / real (length (occupants r)) * real (count_list (occupants r) q) else 0)"
  by (simp add: private_shares_def Let_def dict_get_fold_add)




section \<open>The three strategies of the distributor\<close>


text \<open>
  Per-person sharing on a house in which one person is listed in two rooms: Alice
  (person 0) occupies the first room and, with Bob (person 1), the second. The occupant
  list has three entries, so each entry is worth a third of the daily cost; the
  assignment \<open>shares[person] = per_person\<close> stores one third for Alice once, where the
  other two strategies accumulate with \<open>+=\<close>. The mapping therefore holds two thirds of
  the cost. On houses that list nobody twice the mapping holds all of it
  (\<open>per_person_success\<close>, \<open>per_person_sum_distinct\<close>).
\<close>

lemmas eval_defs = calculate_shares_def process_utility_def validate_utility_coverage_def
  process_period_def skipped_def duration_days_def days_active_def accumulate_def
  calculate_daily_shares_def get_occupants_def total_area_def private_shares_def
  room_shares_def sum_values_def

text \<open>
  C7. Per-person sharing, for \<open>N\<close> occupants and daily cost \<open>C\<close>, is to give each
  occupant \<open>C / N\<close> per day, the shares adding up to \<open>C\<close>. With daily cost 30 and the
  house above the distributor returns 10 for Alice and 10 for Bob, in total 20; over the
  period of ten days with cost 300, \<open>calculate_shares\<close> returns 100 and 100, in total 200.
\<close>

theorem per_person_repeated_occupant:
  "calculate_daily_shares house_with_two_room_tenant per_person 30 = Inr [(0, 10), (1, 10)] \<and>
   sum_values [(0, 10), (1, 10)] = 20 \<and>
   calculate_shares house_with_two_room_tenant 1 10 = Inr [(0, 100), (1, 100)] \<and>
   sum_values [(0, 100), (1, 100)] = 200"
  by (simp add: house_with_two_room_tenant_def example_water_def eval_defs)

section \<open>The allocation engine\<close>









subsection \<open>Sum of the shares of one period, and of a whole call\<close>










section \<open>Calculation leaves the object graph unchanged\<close>

lemma add_utility_st_appends:
  "utilities (house (snd (add_utility_st u w))) = utilities (house w) @ [u]"
  by (simp add: add_utility_st_def modify_def)

lemma calculate_daily_shares_st_eq:
  "calculate_daily_shares_st st c w = (calculate_daily_shares (house w) st c, w)"
  by (cases st)
     (simp_all add: calculate_daily_shares_st_def calculate_daily_shares_def
        get_occupants_st_def get_occupants_def total_area_def bind_def read_def
        return_def raise_def Let_def)

lemma validate_utility_coverage_st_eq:
  "validate_utility_coverage_st u s e w = (validate_utility_coverage u s e, w)"
  by (simp add: validate_utility_coverage_st_def validate_utility_coverage_def
      return_def raise_def Let_def)

lemma process_period_st_eq:
  "process_period_st st s e cp sh w = (process_period (house w) st s e cp sh, w)"
  by (simp add: process_period_st_def process_period_def bind_def return_def raise_def
      calculate_daily_shares_st_eq split: sum.splits)

lemma for_each_st_eq:
  assumes "\<And>x sh. body_st x sh w = (body x sh, w)"
  shows "for_each_st body_st xs sh w = (for_each body xs sh, w)"
  by (induction xs arbitrary: sh) (simp_all add: return_def bind_def assms split: sum.splits)

lemma for_each_periods_st_eq:
  "for_each_st (process_period_st st s e) cps sh w
     = (for_each (process_period (house w) st s e) cps sh, w)"
  by (rule for_each_st_eq) (rule process_period_st_eq)

lemma process_utility_st_eq:
  "process_utility_st s e u sh w = (process_utility (house w) s e u sh, w)"
  by (simp add: process_utility_st_def process_utility_def bind_def
      validate_utility_coverage_st_eq for_each_periods_st_eq split: sum.splits)

lemma for_each_utilities_st_eq:
  "for_each_st (process_utility_st s e) us sh w
     = (for_each (process_utility (house w) s e) us sh, w)"
  by (rule for_each_st_eq) (rule process_utility_st_eq)

lemma calculate_shares_st_eq:
  "calculate_shares_st s e w = (calculate_shares (house w) s e, w)"
  by (simp add: calculate_shares_st_def calculate_shares_def bind_def read_def
      for_each_utilities_st_eq)

lemma for_each_append:
  "for_each body (xs @ ys) sh =
     (case for_each body xs sh of Inl err \<Rightarrow> Inl err | Inr sh' \<Rightarrow> for_each body ys sh')"
  by (induction xs arbitrary: sh) (simp_all split: sum.splits)

text \<open>
  C9. \<open>calculate_shares\<close> leaves the state as it found it, whether it returns a mapping or
  raises: property, rooms, persons, utilities and cost periods are the same afterwards.
  Its result is the one computed from the property alone. When the utilities before some
  utility are processed without error and that utility fails, be it in coverage validation
  or in the distributor, the call ends with exactly this error, whatever utilities follow,
  and returns no mapping.
\<close>

theorem calculate_shares_no_mutation:
  "snd (calculate_shares_st start_date end_date w) = w
   \<and> fst (calculate_shares_st start_date end_date w)
       = calculate_shares (house w) start_date end_date
   \<and> (utilities (house w) = us1 @ u # us2 \<and>
        for_each (process_utility (house w) start_date end_date) us1 [] = Inr sh \<and>
        process_utility (house w) start_date end_date u sh = Inl err
        \<longrightarrow> calculate_shares_st start_date end_date w = (Inl err, w))"
  by (simp add: calculate_shares_st_eq calculate_shares_def for_each_append)

theorem calculate_shares_no_mutation_witness:
  "calculate_shares_st 1 10 example_world = (Inl (ValueError ZeroArea), example_world)
   \<and> calculate_shares_st 1 335 (example_world\<lparr>house := example_house\<rparr>)
       = (Inr [(0, 300 + 2730 / 61), (1, 200 + 1820 / 61)],
          example_world\<lparr>house := example_house\<rparr>)"
proof -
  have "calculate_shares example_house 1 335
          = Inr [(0, 300 + 2730 / 61), (1, 200 + 1820 / 61)]"
    by (simp add: example_house_def example_electricity_def eval_defs)
  then have "calculate_shares_st 1 335 (example_world\<lparr>house := example_house\<rparr>)
       = (Inr [(0, 300 + 2730 / 61), (1, 200 + 1820 / 61)],
          example_world\<lparr>house := example_house\<rparr>)"
    using calculate_shares_no_mutation [of 1 335 "example_world\<lparr>house := example_house\<rparr>"]
    by (simp add: prod_eq_iff)
  moreover have "calculate_shares_st 1 10 example_world
       = (Inl (ValueError ZeroArea), example_world)"
    using calculate_shares_no_mutation
      [of 1 10 example_world "[]" example_electricity "[example_water]" "[]"
        "ValueError ZeroArea"]
    by (simp add: example_world_def empty_house_def example_electricity_def example_water_def
        eval_defs)
  ultimately show ?thesis by simp
qed

section \<open>Rounding to a double\<close>

lemma pow2_powr: "pow2 e = 2 powr (of_int e)"
  by (simp add: pow2_def powr_real_of_int inverse_eq_divide)

lemma pow2_pos: "0 < pow2 e"
  by (simp add: pow2_powr)

lemma double_exponent_binade:
  assumes "pow2 e \<le> \<bar>x\<bar>" and "\<bar>x\<bar> < pow2 (e + 1)" and "- 1022 \<le> e"
  shows "double_exponent x = e"
proof -
  have pos: "0 < \<bar>x\<bar>" using assms(1) pow2_pos[of e] by linarith
  have "\<lfloor>log 2 \<bar>x\<bar>\<rfloor> = e"
    using assms(1,2) pos by (subst floor_log_eq_powr_iff) (simp_all add: pow2_powr)
  then show ?thesis using assms(3) by (simp add: double_exponent_def)
qed

lemma round_double_binade:
  assumes "pow2 e \<le> \<bar>x\<bar>" and "\<bar>x\<bar> < pow2 (e + 1)" and "- 1022 \<le> e"
  shows "round_double x = of_int (round_to_even (x / pow2 (e - 52))) * pow2 (e - 52)"
proof -
  have "x \<noteq> 0" using assms(1) pow2_pos[of e] by auto
  then show ?thesis
    by (simp add: round_double_def double_exponent_binade[OF assms] Let_def)
qed

lemma round_double_exact:
  assumes "pow2 e \<le> \<bar>x\<bar>" and "\<bar>x\<bar> < pow2 (e + 1)" and "- 1022 \<le> e"
    and "x / pow2 (e - 52) = of_int k"
  shows "round_double x = x"
proof -
  have "round_to_even (of_int k) = k" by (simp add: round_to_even_def)
  then have "round_double x = of_int k * pow2 (e - 52)"
    using round_double_binade[OF assms(1-3)] assms(4) by simp
  also have "\<dots> = x" using assms(4)[symmetric] pow2_pos[of "e - 52"] by simp
  finally show ?thesis .
qed

lemma round_to_even_of_int: "round_to_even (of_int k) = k"
  by (simp add: round_to_even_def)

lemma pow2_add: "pow2 (a + b) = pow2 a * pow2 b"
  by (simp add: pow2_powr powr_add)

lemma pow2_nonneg_int: "0 \<le> j \<Longrightarrow> pow2 j = of_int (2 ^ nat j)"
  by (simp add: pow2_def)

lemma double_exponent_le:
  assumes "x \<noteq> 0" and "\<bar>x\<bar> < pow2 (t + 1)" and "- 1022 \<le> t"
  shows "double_exponent x \<le> t"
proof -
  have "log 2 \<bar>x\<bar> < of_int (t + 1)"
    using assms(1,2) by (simp add: pow2_powr log_less_iff)
  then have "\<lfloor>log 2 \<bar>x\<bar>\<rfloor> < t + 1" by (simp only: floor_less_iff)
  then show ?thesis using assms(3) by (simp add: double_exponent_def)
qed

lemma round_double_dyadic:
  assumes "\<bar>n\<bar> < 2 ^ 53" and "- 1074 \<le> j"
  shows "round_double (of_int n * pow2 j) = of_int n * pow2 j"
proof (cases "n = 0")
  case True
  then show ?thesis by (simp add: round_double_def)
next
  case False
  let ?x = "of_int n * pow2 j"
  let ?d = "double_exponent ?x - 52"
  have x0: "?x \<noteq> 0" using False pow2_pos[of j] by simp
  have "\<bar>?x\<bar> = \<bar>of_int n\<bar> * pow2 j" using pow2_pos[of j] by (simp add: abs_mult)
  also have "\<dots> < 2 ^ 53 * pow2 j"
  proof -
    have "\<bar>real_of_int n\<bar> < 2 ^ 53" using assms(1) by (metis of_int_abs of_int_less_numeral_power_cancel_iff)
    then show ?thesis using pow2_pos[of j] by simp
  qed
  also have "\<dots> = pow2 (53 + j)"
  proof -
    have "pow2 53 = 2 ^ 53" by (simp add: pow2_def)
    then show ?thesis by (simp add: pow2_add)
  qed
  finally have "\<bar>?x\<bar> < pow2 ((max (52 + j) (- 1022)) + 1)"
  proof -
    assume a: "\<bar>?x\<bar> < pow2 (53 + j)"
    have "pow2 (53 + j) \<le> pow2 ((max (52 + j) (- 1022)) + 1)"
      by (simp add: pow2_powr)
    with a show ?thesis by linarith
  qed
  from double_exponent_le[OF x0 this] have "double_exponent ?x \<le> max (52 + j) (- 1022)"
    by simp
  with assms(2) have dj: "?d \<le> j" by simp
  define K where "K = n * 2 ^ nat (j - ?d)"
  have "pow2 j = pow2 ?d * pow2 (j - ?d)" by (simp add: pow2_add[symmetric])
  also have "pow2 (j - ?d) = of_int (2 ^ nat (j - ?d))" using dj by (simp add: pow2_nonneg_int)
  finally have pj: "pow2 j = pow2 ?d * of_int (2 ^ nat (j - ?d))" .
  have q: "?x / pow2 ?d = of_int K"
  proof -
    have "of_int n * (pow2 ?d * of_int (2 ^ nat (j - ?d))) / pow2 ?d
        = of_int n * of_int (2 ^ nat (j - ?d))"
      using pow2_pos[of ?d] by simp
    then have "?x / pow2 ?d = of_int n * of_int (2 ^ nat (j - ?d))"
      using pj by metis
    then show ?thesis by (simp add: K_def)
  qed
  have "round_double ?x = of_int (round_to_even (?x / pow2 ?d)) * pow2 ?d"
    using x0 by (simp add: round_double_def Let_def)
  also have "\<dots> = of_int K * pow2 ?d"
    by (simp only: q round_to_even_of_int)
  also have "\<dots> = ?x"
    using q pow2_pos[of ?d] by (metis nonzero_divide_eq_eq less_irrefl)
  finally show ?thesis .
qed


lemma round_double_zero: "round_double 0 = 0"
  by (simp add: round_double_def)

lemma round_double_one: "round_double 1 = 1"
  using round_double_dyadic[of 1 0] by (simp add: pow2_def)

lemma round_double_half: "round_double (1 / 2) = 1 / 2"
  using round_double_dyadic[of 1 "-1"] by (simp add: pow2_def)

lemma round_double_quarter: "round_double (1 / 4) = 1 / 4"
  using round_double_dyadic[of 1 "-2"] by (simp add: pow2_def)



lemmas fl_eval_defs = calculate_shares_fl_def process_utility_fl_def
  validate_utility_coverage_def process_period_fl_def skipped_def duration_days_def
  days_active_def accumulate_fl_def calculate_daily_shares_fl_def get_occupants_def
  total_area_fl_def private_shares_fl_def room_shares_fl_def sum_values_def

lemma round_double_eval:
  assumes "pow2 (find_exponent 64 0 \<bar>x\<bar>) \<le> \<bar>x\<bar>"
    and "\<bar>x\<bar> < pow2 (find_exponent 64 0 \<bar>x\<bar> + 1)"
    and "- 1022 \<le> find_exponent 64 0 \<bar>x\<bar>"
  shows "round_double x =
           of_int (round_to_even (x / pow2 (find_exponent 64 0 \<bar>x\<bar> - 52)))
             * pow2 (find_exponent 64 0 \<bar>x\<bar> - 52)"
  using assms by (rule round_double_binade)

lemma find_exponent_numeral:
  "find_exponent (numeral k) e x =
     (if pow2 (e + 1) \<le> x then find_exponent (pred_numeral k) (e + 1) x
      else if x < pow2 e then find_exponent (pred_numeral k) (e - 1) x
      else e)"
  by (simp add: numeral_eq_Suc)

lemmas round_double_eval_numerals =
  round_double_eval [of "numeral a"] round_double_eval [of "numeral a / numeral b"]
  round_double_eval [of "1 / numeral b"] round_double_eval [of 1]
  for a b

lemmas float_eval = round_double_eval_numerals round_double_zero pow2_def round_to_even_def
  find_exponent_numeral


subsection \<open>Without rounding, the exact computation\<close>

lemma dict_add_fl_exact_app: "dict_add_fl (\<lambda>x. x) k v d = dict_add k v d"
  by (induction k v d rule: dict_add.induct) simp_all

lemma dict_add_fl_exact: "dict_add_fl (\<lambda>x. x) = dict_add"
  by (intro ext) (rule dict_add_fl_exact_app)

lemma fold_plus_sum_list: "fold (\<lambda>a s. s + a) xs (s0::real) = s0 + sum_list xs"
  by (induction xs arbitrary: s0) simp_all

lemma total_area_fl_exact: "total_area_fl (\<lambda>x. x) p = total_area p"
  by (simp add: total_area_fl_def total_area_def fold_plus_sum_list)

lemma private_shares_fl_exact: "private_shares_fl (\<lambda>x. x) = private_shares"
  by (intro ext) (simp add: private_shares_fl_def private_shares_def dict_add_fl_exact Let_def)

lemma room_shares_fl_exact: "room_shares_fl (\<lambda>x. x) = room_shares"
  by (intro ext) (simp add: room_shares_fl_def room_shares_def dict_add_fl_exact Let_def)

lemma calculate_daily_shares_fl_exact:
  "calculate_daily_shares_fl (\<lambda>x. x) p st c = calculate_daily_shares p st c"
  by (cases st)
     (simp_all add: calculate_daily_shares_fl_def calculate_daily_shares_def Let_def
        total_area_fl_exact private_shares_fl_exact room_shares_fl_exact dict_add_fl_exact)

lemma accumulate_fl_exact: "accumulate_fl (\<lambda>x. x) = accumulate"
  by (intro ext) (simp add: accumulate_fl_def accumulate_def dict_add_fl_exact)

lemma process_period_fl_exact: "process_period_fl (\<lambda>x. x) = process_period"
  by (intro ext)
     (simp add: process_period_fl_def process_period_def calculate_daily_shares_fl_exact
        accumulate_fl_exact Let_def cong: sum.case_cong)

lemma process_utility_fl_exact: "process_utility_fl (\<lambda>x. x) = process_utility"
  by (intro ext)
     (simp add: process_utility_fl_def process_utility_def process_period_fl_exact
        cong: sum.case_cong)

lemma calculate_shares_fl_exact:
  "calculate_shares_fl (\<lambda>x. x) p s e = calculate_shares p s e"
  by (simp add: calculate_shares_fl_def calculate_shares_def process_utility_fl_exact)

lemma exact_rounding: "(\<forall>x. rnd x = x) \<Longrightarrow> rnd = (\<lambda>x. x)"
  by (rule ext) simp

subsection \<open>The program on floats: four runs\<close>

text \<open>
  The main block of the program (window 1 January to 30 November): Alice is charged
  344.75409836065575 and Bob 229.8360655737705. One utility period on the house of which
  one half is empty (cost 70 over 7 days): 39.99999999999999. A single tenant and a bill
  of 1 over 49 days: 0.9999999999999999. Six shares of 0.16666666666666666 add up, with
  the built-in \<open>sum\<close>, to 0.9999999999999999.
\<close>

lemma main_block_float_example:
  "calculate_shares_fl round_double example_house 1 335
     = Inr [(0, 6064978237935549 / 2 ^ 44), (1, 2021659412645183 / 2 ^ 43)]"
  by (simp add: example_house_def example_electricity_def fl_eval_defs float_eval)

lemma per_area_float_example:
  "process_period_fl round_double half_empty_house per_area 1 7
     \<lparr>cp_start = 1, cp_end = 7, cost = 70\<rparr> [] = Inr [(0, 5629499534213119 / 2 ^ 47)]"
  by (simp add: half_empty_house_def fl_eval_defs float_eval)

lemma per_person_float_example:
  "calculate_shares_fl round_double one_tenant_house 1 49 = Inr [(0, 1 - 1 / 2 ^ 53)]"
  by (simp add: one_tenant_house_def fl_eval_defs float_eval)


section \<open>Shares under rounding\<close>



























subsection \<open>The error of rounding, and of the per-room shares\<close>



















end
